theory Spec2Isabelle
  imports Main "HOL-Library.Sublist"
begin

section \<open>JavaScript values that come from, or go to, JSON text\<close>

text \<open>
  A JavaScript string is modelled as a \<^typ>\<open>string\<close>, read as the UTF-8 bytes of the
  text. A number is carried by its canonical decimal rendering (what \<open>String(n)\<close>
  returns, so both zeros are \<open>''0''\<close>). \<open>undefined\<close> is not a JSON value: a property
  that may be \<open>undefined\<close> is an \<open>option\<close>, with \<^term>\<open>None\<close> for \<open>undefined\<close>.
  An object is the list of its own properties in enumeration order.
\<close>

datatype json = JNull | JBool bool | JNumber string | JString string | JArray "json list"
  | JObject "(string \<times> json) list"

datatype error = TypeError | RangeError | IOError | ApiError | ClientNotInitialized
  | FailedToGenerate error | Unmodelled

text \<open>Truthiness, as tested by \<open>!x\<close>, \<open>x || y\<close> and \<open>x ? a : b\<close>.\<close>

fun truthy :: "json option \<Rightarrow> bool" where
  "truthy None = False"
| "truthy (Some JNull) = False"
| "truthy (Some (JBool b)) = b"
| "truthy (Some (JNumber n)) = (n \<noteq> ''0'' \<and> n \<noteq> ''NaN'')"
| "truthy (Some (JString s)) = (s \<noteq> [])"
| "truthy (Some (JArray vs)) = True"
| "truthy (Some (JObject ms)) = True"

text \<open>The same test on a value that is a string or \<open>undefined\<close> (a header, an
  environment variable, a command-line argument).\<close>

fun truthyS :: "string option \<Rightarrow> bool" where
  "truthyS None = False"
| "truthyS (Some s) = (s \<noteq> [])"


text \<open>
  Reading a property \<open>x.k\<close>, for the property names this program reads (none of them
  is a built-in property of a string or an array): a \<open>TypeError\<close> on \<open>undefined\<close> and
  \<open>null\<close>, \<open>undefined\<close> on every primitive and on an object without the key.
\<close>

fun getProp :: "json option \<Rightarrow> string \<Rightarrow> error + json option" where
  "getProp None k = Inl TypeError"
| "getProp (Some JNull) k = Inl TypeError"
| "getProp (Some (JObject ms)) k = Inr (map_of ms k)"
| "getProp (Some v) k = Inr None"

fun join :: "'a list \<Rightarrow> 'a list list \<Rightarrow> 'a list" where
  "join sep [] = []"
| "join sep [x] = x"
| "join sep (x # y # ys) = x @ sep @ join sep (y # ys)"

text \<open>\<open>String(v)\<close>, which a template literal \<open>${v}\<close> applies.\<close>

fun jsString :: "json \<Rightarrow> string" where
  "jsString JNull = ''null''"
| "jsString (JBool b) = (if b then ''true'' else ''false'')"
| "jsString (JNumber n) = n"
| "jsString (JString s) = s"
| "jsString (JArray vs) = join '','' (map (\<lambda>v. if v = JNull then [] else jsString v) vs)"
| "jsString (JObject ms) = ''[object Object]''"

fun tmplJ :: "json option \<Rightarrow> string" where
  "tmplJ None = ''undefined''"
| "tmplJ (Some v) = jsString v"

fun tmpl :: "string option \<Rightarrow> string" where
  "tmpl None = ''undefined''"
| "tmpl (Some s) = s"

subsection \<open>JSON.stringify\<close>

definition hexDigit :: "nat \<Rightarrow> char" where
  "hexDigit n = (if n < 10 then char_of (48 + n) else char_of (87 + n))"

text \<open>QuoteJSONString: the two-character escapes, \<open>\u00XX\<close> for the other control
  characters, every other character as it is.\<close>

definition escapeChar :: "char \<Rightarrow> string" where
  "escapeChar c =
    (if c = CHR 0x22 then [CHR 0x5C, CHR 0x22]
     else if c = CHR 0x5C then [CHR 0x5C, CHR 0x5C]
     else if c = CHR 0x08 then [CHR 0x5C, CHR ''b'']
     else if c = CHR 0x0C then [CHR 0x5C, CHR ''f'']
     else if c = CHR 0x0A then [CHR 0x5C, CHR ''n'']
     else if c = CHR 0x0D then [CHR 0x5C, CHR ''r'']
     else if c = CHR 0x09 then [CHR 0x5C, CHR ''t'']
     else if (of_char c :: nat) < 32
       then [CHR 0x5C, CHR ''u'', CHR ''0'', CHR ''0'',
             hexDigit (of_char c div 16), hexDigit (of_char c mod 16)]
     else [c])"

definition quote :: "string \<Rightarrow> string" where
  "quote s = CHR 0x22 # concat (map escapeChar s) @ [CHR 0x22]"

definition spaces :: "nat \<Rightarrow> string" where
  "spaces n = replicate n CHR '' ''"

text \<open>
  SerializeJSONProperty with gap width \<open>g\<close> at indentation \<open>i\<close>. With \<open>g = 0\<close> the
  output has no white space; otherwise each element goes on its own line. A number that
  is not finite is written \<open>null\<close>.
\<close>

fun stringify :: "nat \<Rightarrow> nat \<Rightarrow> json \<Rightarrow> string" where
  "stringify g i JNull = ''null''"
| "stringify g i (JBool b) = (if b then ''true'' else ''false'')"
| "stringify g i (JNumber n) =
    (if n = ''Infinity'' \<or> n = ''-Infinity'' \<or> n = ''NaN'' then ''null'' else n)"
| "stringify g i (JString s) = quote s"
| "stringify g i (JArray vs) =
    (if vs = [] then ''[]''
     else if g = 0 then ''['' @ join '','' (map (stringify g i) vs) @ '']''
     else ''[\<newline>'' @ spaces (i + g)
          @ join ('',\<newline>'' @ spaces (i + g)) (map (stringify g (i + g)) vs)
          @ ''\<newline>'' @ spaces i @ '']'')"
| "stringify g i (JObject ms) =
    (if ms = [] then ''{}''
     else if g = 0
       then ''{'' @ join '','' (map (\<lambda>(k, v). quote k @ '':'' @ stringify g i v) ms) @ ''}''
     else ''{\<newline>'' @ spaces (i + g)
          @ join ('',\<newline>'' @ spaces (i + g))
              (map (\<lambda>(k, v). quote k @ '': '' @ stringify g (i + g) v) ms)
          @ ''\<newline>'' @ spaces i @ ''}'')"

text \<open>\<open>JSON.stringify(v, null, space)\<close>; \<open>JSON.stringify(v)\<close> is \<open>space = 0\<close>.\<close>

definition JSON_stringify :: "nat \<Rightarrow> json \<Rightarrow> string" where
  "JSON_stringify space v = stringify (min 10 space) 0 v"

subsection \<open>JSON.parse\<close>

text \<open>
  A lexer and a stack parser for JSON text. The model covers text without number
  literals, with \<open>\u\<close> escapes below \<open>0080\<close> only, and with object keys that are not
  array indices (JavaScript enumerates those first, in numeric order): on anything else,
  as on a syntax error, the result is \<^term>\<open>None\<close>. A repeated key keeps its first
  position and takes the last value.
\<close>

datatype token = TLBrace | TRBrace | TLBrack | TRBrack | TColon | TComma
  | TStr string | TNull | TBool bool

definition isWs :: "char \<Rightarrow> bool" where
  "isWs c = (c = CHR '' '' \<or> c = CHR 0x09 \<or> c = CHR 0x0A \<or> c = CHR 0x0D)"

definition hexVal :: "char \<Rightarrow> nat option" where
  "hexVal c =
    (let n = (of_char c :: nat) in
     if 48 \<le> n \<and> n \<le> 57 then Some (n - 48)
     else if 97 \<le> n \<and> n \<le> 102 then Some (n - 87)
     else if 65 \<le> n \<and> n \<le> 70 then Some (n - 55)
     else None)"

definition hex4 :: "char \<Rightarrow> char \<Rightarrow> char \<Rightarrow> char \<Rightarrow> nat option" where
  "hex4 a b c d =
    (case (hexVal a, hexVal b, hexVal c, hexVal d) of
       (Some x, Some y, Some z, Some w) \<Rightarrow> Some (((x * 16 + y) * 16 + z) * 16 + w)
     | _ \<Rightarrow> None)"

definition unescape :: "char \<Rightarrow> char option" where
  "unescape e =
    (if e = CHR 0x22 then Some (CHR 0x22)
     else if e = CHR 0x5C then Some (CHR 0x5C)
     else if e = CHR ''/'' then Some (CHR ''/'')
     else if e = CHR ''b'' then Some (CHR 0x08)
     else if e = CHR ''f'' then Some (CHR 0x0C)
     else if e = CHR ''n'' then Some (CHR 0x0A)
     else if e = CHR ''r'' then Some (CHR 0x0D)
     else if e = CHR ''t'' then Some (CHR 0x09)
     else None)"

definition emit :: "token \<Rightarrow> token list option \<Rightarrow> token list option" where
  "emit t r = map_option ((#) t) r"

fun lexJ :: "string \<Rightarrow> token list option"
  and lexStr :: "string \<Rightarrow> string \<Rightarrow> token list option"
  and lexEsc :: "string \<Rightarrow> string \<Rightarrow> token list option"
  and lexUni :: "string \<Rightarrow> string \<Rightarrow> token list option"
where
  "lexJ [] = Some []"
| "lexJ (c # cs) =
    (if isWs c then lexJ cs
     else if c = CHR ''{'' then emit TLBrace (lexJ cs)
     else if c = CHR ''}'' then emit TRBrace (lexJ cs)
     else if c = CHR ''['' then emit TLBrack (lexJ cs)
     else if c = CHR '']'' then emit TRBrack (lexJ cs)
     else if c = CHR '':'' then emit TColon (lexJ cs)
     else if c = CHR '','' then emit TComma (lexJ cs)
     else if c = CHR 0x22 then lexStr [] cs
     else if c = CHR ''n'' \<and> take 3 cs = ''ull'' then emit TNull (lexJ (drop 3 cs))
     else if c = CHR ''t'' \<and> take 3 cs = ''rue'' then emit (TBool True) (lexJ (drop 3 cs))
     else if c = CHR ''f'' \<and> take 4 cs = ''alse'' then emit (TBool False) (lexJ (drop 4 cs))
     else None)"
| "lexStr acc [] = None"
| "lexStr acc (c # cs) =
    (if c = CHR 0x22 then emit (TStr acc) (lexJ cs)
     else if c = CHR 0x5C then lexEsc acc cs
     else if (of_char c :: nat) < 32 then None
     else lexStr (acc @ [c]) cs)"
| "lexEsc acc [] = None"
| "lexEsc acc (e # cs) =
    (if e = CHR ''u'' then lexUni acc cs
     else case unescape e of None \<Rightarrow> None | Some ch \<Rightarrow> lexStr (acc @ [ch]) cs)"
| "lexUni acc (a # b # c # d # cs) =
    (case hex4 a b c d of
       None \<Rightarrow> None
     | Some n \<Rightarrow> if n < 128 then lexStr (acc @ [char_of n]) cs else None)"
| "lexUni acc cs = None"

datatype frame = FArr "json list" | FObj "(string \<times> json) list" "string option"

datatype pstate = PValue | PArrStart | PObjStart | PKey | PColon | PAfter | PDone json

definition isDigit :: "char \<Rightarrow> bool" where
  "isDigit c = (48 \<le> (of_char c :: nat) \<and> (of_char c :: nat) \<le> 57)"

definition indexLike :: "string \<Rightarrow> bool" where
  "indexLike k = (k = ''0'' \<or> (list_all isDigit k \<and> (case k of [] \<Rightarrow> False | c # cs \<Rightarrow> c \<noteq> CHR ''0'')))"

fun setProp :: "string \<Rightarrow> json \<Rightarrow> (string \<times> json) list \<Rightarrow> (string \<times> json) list" where
  "setProp k v [] = [(k, v)]"
| "setProp k v (p # ps) = (if fst p = k then (k, v) # ps else p # setProp k v ps)"

fun push_value :: "frame list \<Rightarrow> json \<Rightarrow> (frame list \<times> pstate) option" where
  "push_value [] v = Some ([], PDone v)"
| "push_value (FArr vs # st) v = Some (FArr (vs @ [v]) # st, PAfter)"
| "push_value (FObj ms (Some k) # st) v =
    (if indexLike k then None else Some (FObj (setProp k v ms) None # st, PAfter))"
| "push_value (FObj ms None # st) v = None"

definition acceptsValue :: "pstate \<Rightarrow> bool" where
  "acceptsValue ps = (ps = PValue \<or> ps = PArrStart)"

fun step :: "frame list \<times> pstate \<Rightarrow> token \<Rightarrow> (frame list \<times> pstate) option" where
  "step (st, ps) (TStr s) =
    (if ps = PObjStart \<or> ps = PKey
       then (case st of FObj ms None # st' \<Rightarrow> Some (FObj ms (Some s) # st', PColon) | _ \<Rightarrow> None)
     else if acceptsValue ps then push_value st (JString s) else None)"
| "step (st, ps) TNull = (if acceptsValue ps then push_value st JNull else None)"
| "step (st, ps) (TBool b) = (if acceptsValue ps then push_value st (JBool b) else None)"
| "step (st, ps) TLBrack = (if acceptsValue ps then Some (FArr [] # st, PArrStart) else None)"
| "step (st, ps) TLBrace = (if acceptsValue ps then Some (FObj [] None # st, PObjStart) else None)"
| "step (st, ps) TRBrack =
    (case st of
       FArr vs # st' \<Rightarrow> if ps = PArrStart \<or> ps = PAfter then push_value st' (JArray vs) else None
     | _ \<Rightarrow> None)"
| "step (st, ps) TRBrace =
    (case st of
       FObj ms None # st' \<Rightarrow>
         if ps = PObjStart \<or> ps = PAfter then push_value st' (JObject ms) else None
     | _ \<Rightarrow> None)"
| "step (st, ps) TComma =
    (if ps = PAfter
       then (case st of FArr vs # st' \<Rightarrow> Some (st, PValue)
                      | FObj ms None # st' \<Rightarrow> Some (st, PKey)
                      | _ \<Rightarrow> None)
     else None)"
| "step (st, ps) TColon = (if ps = PColon then Some (st, PValue) else None)"

fun run :: "frame list \<times> pstate \<Rightarrow> token list \<Rightarrow> json option" where
  "run (st, ps) [] = (case ps of PDone v \<Rightarrow> (if st = [] then Some v else None) | _ \<Rightarrow> None)"
| "run c (t # ts) = (case step c t of None \<Rightarrow> None | Some c' \<Rightarrow> run c' ts)"

definition JSON_parse :: "string \<Rightarrow> json option" where
  "JSON_parse text = (case lexJ text of None \<Rightarrow> None | Some ts \<Rightarrow> run ([], PValue) ts)"


section \<open>The world outside the program\<close>

text \<open>
  What the environment variables hold, and what the external collaborators answer: the
  clock, the file system, the HMAC primitive of \<open>crypto\<close>, the Google client, the chat
  completion API and the git command line. A call that throws is \<^term>\<open>False\<close> or
  \<^term>\<open>None\<close>. Every call that writes outside the process is recorded as an
  \<open>effect\<close>, in the order issued, whether or not it then succeeds. Console output is
  left out.
\<close>

record env =
  GITHUB_WEBHOOK_SECRET :: "string option"
  GOOGLE_DOCS_ID :: "string option"
  GOOGLE_APPLICATION_CREDENTIALS :: "string option"
  OPENAI_API_KEY :: "string option"

record chatRequest =
  cr_model :: json
  cr_system :: string
  cr_user :: json
  cr_temperature :: json
  cr_max_tokens :: json

record world =
  now :: string
  fs_access :: "string \<Rightarrow> bool"
  fs_mkdir :: "string \<Rightarrow> bool"
  fs_appendFile :: "string \<Rightarrow> bool"
  hmac_sha256_hex :: "string \<Rightarrow> string \<Rightarrow> string"
  googleAuth :: bool
  docs_get :: "string \<Rightarrow> int list option"
  docs_batchUpdate :: bool
  chat_create :: "chatRequest \<Rightarrow> json option"
  git_diff_tree :: "string \<Rightarrow> string option"
  git_show :: "string \<Rightarrow> string option"

datatype effect = FsMkdir string | FsAppendFile string string | DocsGet string
  | DocsBatchUpdate string int string | ChatCreate chatRequest

fun isFsWrite :: "effect \<Rightarrow> bool" where
  "isFsWrite (FsMkdir d) = True"
| "isFsWrite (FsAppendFile f c) = True"
| "isFsWrite e = False"

fun isDocsRequest :: "effect \<Rightarrow> bool" where
  "isDocsRequest (DocsGet d) = True"
| "isDocsRequest (DocsBatchUpdate d i c) = True"
| "isDocsRequest e = False"


definition andThen :: "error + 'a \<Rightarrow> ('a \<Rightarrow> error + 'b) \<Rightarrow> error + 'b" where
  "andThen r f = (case r of Inl e \<Rightarrow> Inl e | Inr x \<Rightarrow> f x)"

text \<open>\<open>path.join(__dirname, '../../logs')\<close> and the two files in it.\<close>

definition LOGS_DIR :: string where
  "LOGS_DIR = ''logs''"

definition COMMITS_LOG_FILE :: string where
  "COMMITS_LOG_FILE = LOGS_DIR @ ''/commits.log''"

definition PROCESSED_LOG_FILE :: string where
  "PROCESSED_LOG_FILE = LOGS_DIR @ ''/processed-commits.log''"

section \<open>Commit records (src/scripts/process-commit.js)\<close>

record committer =
  name :: "string option"
  email :: "string option"

record fileChange =
  status :: string
  file_c :: "string option"

record commitInfo =
  id_c :: string
  previousCommit :: "string option"
  committer :: committer
  message :: string
  timestamp :: string
  filesChanged :: "fileChange list"
  diff :: string

subsection \<open>formatCommitForDocs\<close>

text \<open>\<open>file.status === 'A' ? '+' : file.status === 'D' ? '-' : '~'\<close>\<close>

definition statusSymbol :: "string \<Rightarrow> string" where
  "statusSymbol st = (if st = ''A'' then ''+'' else if st = ''D'' then ''-'' else ''~'')"

text \<open>The body of the \<open>for (const file of filesChanged)\<close> loop, threading \<open>content\<close>.\<close>

fun changedFilesLoop :: "string \<Rightarrow> fileChange list \<Rightarrow> string" where
  "changedFilesLoop content [] = content"
| "changedFilesLoop content (f # fs) =
     changedFilesLoop (content @ statusSymbol (status f) @ '' '' @ tmpl (file_c f) @ ''\<newline>'') fs"

definition formatCommitForDocs :: "commitInfo \<Rightarrow> string" where
  "formatCommitForDocs commit =
    (let content = '''';
         content = content @ ''==================== COMMIT DETAILS ====================\<newline>'';
         content = content @ ''Committer: '' @ tmpl (name (committer commit)) @ '' <''
                     @ tmpl (email (committer commit)) @ ''>\<newline>'';
         content = content @ ''Commit ID: '' @ id_c commit @ ''\<newline>'';
         content = content @ ''Previous Commit: '' @ tmpl (previousCommit commit) @ ''\<newline>'';
         content = content @ ''Date: '' @ timestamp commit @ ''\<newline>'';
         content = content @ ''Message: '' @ message commit @ ''\<newline>\<newline>'';
         content = content @ ''============ CHANGED FILES ============\<newline>'';
         content = changedFilesLoop content (filesChanged commit);
         content = content @ ''\<newline>'';
         content = content @ ''============ DIFF OUTPUT ============\<newline>'';
         content = content @ diff commit;
         content = content @ ''\<newline>'';
         content = content @ ''===========================================\<newline>\<newline>''
     in content)"

subsection \<open>logProcessedCommit\<close>

text \<open>
  The object \<open>commitInfo\<close> as \<open>JSON.stringify\<close> enumerates it: the properties in the
  order of the object literal, a property whose value is \<open>undefined\<close> left out.
\<close>

fun optProp :: "string \<Rightarrow> string option \<Rightarrow> (string \<times> json) list" where
  "optProp k None = []"
| "optProp k (Some s) = [(k, JString s)]"

definition committer_json :: "committer \<Rightarrow> json" where
  "committer_json c = JObject (optProp ''name'' (name c) @ optProp ''email'' (email c))"

definition fileChange_json :: "fileChange \<Rightarrow> json" where
  "fileChange_json f = JObject ((''status'', JString (status f)) # optProp ''file'' (file_c f))"

definition commitInfo_json :: "commitInfo \<Rightarrow> json" where
  "commitInfo_json c =
    JObject ((''id'', JString (id_c c)) # optProp ''previousCommit'' (previousCommit c)
      @ [(''committer'', committer_json (committer c)),
         (''message'', JString (message c)),
         (''timestamp'', JString (timestamp c)),
         (''filesChanged'', JArray (map fileChange_json (filesChanged c))),
         (''diff'', JString (diff c))])"

text \<open>\<open>JSON.stringify(commitInfo, null, 2)\<close>\<close>

definition logEntry :: "commitInfo \<Rightarrow> string" where
  "logEntry c = JSON_stringify 2 (commitInfo_json c)"

definition logProcessedCommit :: "world \<Rightarrow> commitInfo \<Rightarrow> error option \<times> effect list" where
  "logProcessedCommit w c =
    (if \<not> fs_mkdir w LOGS_DIR then (Some IOError, [FsMkdir LOGS_DIR])
     else if \<not> fs_appendFile w PROCESSED_LOG_FILE
       then (Some IOError,
             [FsMkdir LOGS_DIR, FsAppendFile PROCESSED_LOG_FILE (logEntry c @ ''\<newline>\<newline>'')])
     else (None,
           [FsMkdir LOGS_DIR, FsAppendFile PROCESSED_LOG_FILE (logEntry c @ ''\<newline>\<newline>'')]))"

subsection \<open>syncToGoogleDocs of the script\<close>

text \<open>Every failure is caught and logged; the function returns nothing.\<close>

definition syncCommitToGoogleDocs :: "world \<Rightarrow> env \<Rightarrow> commitInfo \<Rightarrow> effect list" where
  "syncCommitToGoogleDocs w e c =
    (case (GOOGLE_DOCS_ID e, GOOGLE_APPLICATION_CREDENTIALS e) of
       (Some googleDocsId, Some credentialsPath) \<Rightarrow>
         if googleDocsId = [] \<or> credentialsPath = [] then []
         else if \<not> fs_access w credentialsPath then []
         else if \<not> googleAuth w then []
         else (case docs_get w googleDocsId of
                 None \<Rightarrow> [DocsGet googleDocsId]
               | Some ends \<Rightarrow>
                   if ends = [] then [DocsGet googleDocsId]
                   else [DocsGet googleDocsId,
                         DocsBatchUpdate googleDocsId (last ends - 1) (formatCommitForDocs c)])
     | _ \<Rightarrow> [])"

subsection \<open>processCommit\<close>

text \<open>\<open>s.split(c)\<close>: the first piece and the pieces after it.\<close>

fun splitFirst :: "char \<Rightarrow> string \<Rightarrow> string \<times> string list" where
  "splitFirst c [] = ([], [])"
| "splitFirst c (x # xs) =
    (let (h, t) = splitFirst c xs in if x = c then ([], h # t) else (x # h, t))"

definition pieces :: "char \<Rightarrow> string \<Rightarrow> string list" where
  "pieces c s = (let (h, t) = splitFirst c s in h # t)"

text \<open>\<open>const [status, file] = line.split('\t')\<close>\<close>

definition parseLine :: "string \<Rightarrow> fileChange" where
  "parseLine line =
    (let (st, rest) = splitFirst (CHR 0x09) line
     in \<lparr>status = st, file_c = (case rest of [] \<Rightarrow> None | f # _ \<Rightarrow> Some f)\<rparr>)"

definition parseFilesChanged :: "string \<Rightarrow> fileChange list" where
  "parseFilesChanged txt = map parseLine (filter (\<lambda>l. l \<noteq> []) (pieces (CHR 0x0A) txt))"

text \<open>
  The record built from \<open>process.argv.slice(2)\<close>:
  \<open>[commitId, previousCommit, committerName, committerEmail, ...commitMsgParts]\<close>.
  (\<open>repoRoot\<close> is computed by the script and never used.)
\<close>

fun arg :: "string list \<Rightarrow> nat \<Rightarrow> string option" where
  "arg [] n = None"
| "arg (x # xs) 0 = Some x"
| "arg (x # xs) (Suc n) = arg xs n"

definition buildCommitInfo :: "world \<Rightarrow> string \<Rightarrow> string list \<Rightarrow> commitInfo" where
  "buildCommitInfo w commitId argv =
    \<lparr>id_c = commitId,
     previousCommit = arg argv 1,
     committer = \<lparr>name = arg argv 2, email = arg argv 3\<rparr>,
     message = join '' '' (drop 4 argv),
     timestamp = now w,
     filesChanged = parseFilesChanged (case git_diff_tree w commitId of None \<Rightarrow> '''' | Some out \<Rightarrow> out),
     diff = (case git_show w commitId of None \<Rightarrow> ''Diff unavailable'' | Some out \<Rightarrow> out)\<rparr>"

text \<open>The exit code of the script and the effects it has had.\<close>

definition processCommit :: "world \<Rightarrow> env \<Rightarrow> string list \<Rightarrow> nat \<times> effect list" where
  "processCommit w e argv =
    (case arg argv 0 of
       None \<Rightarrow> (1, [])
     | Some commitId \<Rightarrow>
         if commitId = [] then (1, [])
         else (let commitInfo = buildCommitInfo w commitId argv in
               case logProcessedCommit w commitInfo of
                 (Some err, effs) \<Rightarrow> (1, effs)
               | (None, effs) \<Rightarrow> (0, effs @ syncCommitToGoogleDocs w e commitInfo)))"

section \<open>Doc Sync client (the GoogleDocsSync class)\<close>

record googleDocsSync =
  initialized :: bool

text \<open>The instance the module exports: \<open>new GoogleDocsSync()\<close>.\<close>

definition newGoogleDocsSync :: googleDocsSync where
  "newGoogleDocsSync = \<lparr>initialized = False\<rparr>"

definition initialize :: "world \<Rightarrow> env \<Rightarrow> googleDocsSync \<Rightarrow> bool \<times> googleDocsSync" where
  "initialize w e s =
    (if \<not> truthyS (GOOGLE_APPLICATION_CREDENTIALS e) then (False, s)
     else if \<not> googleAuth w then (False, s)
     else (True, s\<lparr>initialized := True\<rparr>))"

text \<open>
  The part of \<open>appendToDocument\<close> after the client is there:
  \<open>const docId = documentId || process.env.GOOGLE_DOCS_ID\<close>, the fetch of the document,
  the end index of its last element, the insertion just before it.
\<close>

definition appendWithClient ::
  "world \<Rightarrow> env \<Rightarrow> googleDocsSync \<Rightarrow> string \<Rightarrow> string option
   \<Rightarrow> bool \<times> googleDocsSync \<times> effect list" where
  "appendWithClient w e s content documentId =
    (let docId = (if truthyS documentId then documentId else GOOGLE_DOCS_ID e) in
     case docId of
       None \<Rightarrow> (False, s, [])
     | Some d \<Rightarrow>
         if d = [] then (False, s, [])
         else (case docs_get w d of
                 None \<Rightarrow> (False, s, [DocsGet d])
               | Some ends \<Rightarrow>
                   if ends = [] then (False, s, [DocsGet d])
                   else (docs_batchUpdate w, s,
                         [DocsGet d, DocsBatchUpdate d (last ends - 1) content])))"

definition appendToDocument ::
  "world \<Rightarrow> env \<Rightarrow> googleDocsSync \<Rightarrow> string \<Rightarrow> string option
   \<Rightarrow> bool \<times> googleDocsSync \<times> effect list" where
  "appendToDocument w e s content documentId =
    (if \<not> initialized s
       then (case initialize w e s of
               (False, s') \<Rightarrow> (False, s', [])
             | (True, s') \<Rightarrow> appendWithClient w e s' content documentId)
     else appendWithClient w e s content documentId)"

text \<open>The call with the text alone; \<open>documentId\<close> takes its default \<open>null\<close>.\<close>

definition appendText :: "world \<Rightarrow> env \<Rightarrow> googleDocsSync \<Rightarrow> string
   \<Rightarrow> bool \<times> googleDocsSync \<times> effect list" where
  "appendText w e s content = appendToDocument w e s content None"

text \<open>
  The states the client can be in while the process runs with environment \<open>e\<close>: the
  exported instance, and what a call leaves behind.
\<close>

inductive reachable :: "world \<Rightarrow> env \<Rightarrow> googleDocsSync \<Rightarrow> bool" for w e where
  start: "reachable w e newGoogleDocsSync"
| call: "reachable w e s \<Longrightarrow> appendToDocument w e s content documentId = (ok, s', effs)
           \<Longrightarrow> reachable w e s'"

section \<open>GitHub webhook controller (src/controllers/githubController.js)\<close>

record request =
  headers :: "string \<rightharpoonup> string"
  body :: json

datatype dataField = DataAbsent | DataNull | DataContent "(string \<times> json option) list"

record response =
  res_status :: nat
  res_success :: bool
  res_message :: string
  res_data :: dataField
  res_error :: "error option"

subsection \<open>verifyGithubWebhook\<close>

text \<open>\<open>crypto.timingSafeEqual\<close> throws a \<open>RangeError\<close> on buffers of different lengths.\<close>

definition timingSafeEqual :: "string \<Rightarrow> string \<Rightarrow> error + bool" where
  "timingSafeEqual a b = (if length a \<noteq> length b then Inl RangeError else Inr (a = b))"

text \<open>\<open>JSON.stringify(payload)\<close>, the text handed to \<open>hmac.update\<close>.\<close>

definition signedText :: "json \<Rightarrow> string" where
  "signedText payload = JSON_stringify 0 payload"

definition computeDigest :: "world \<Rightarrow> string \<Rightarrow> json \<Rightarrow> string" where
  "computeDigest w secret payload = ''sha256='' @ hmac_sha256_hex w secret (signedText payload)"

definition verifyGithubWebhook :: "world \<Rightarrow> env \<Rightarrow> json \<Rightarrow> string option \<Rightarrow> error + bool" where
  "verifyGithubWebhook w e payload signature =
    (case (signature, GITHUB_WEBHOOK_SECRET e) of
       (Some sig, Some secret) \<Rightarrow>
         if sig = [] \<or> secret = [] then Inr False
         else timingSafeEqual (computeDigest w secret payload) sig
     | _ \<Rightarrow> Inr False)"

subsection \<open>appendToCommitLog and syncToGoogleDocs\<close>

definition appendToCommitLog :: "world \<Rightarrow> string \<Rightarrow> error option \<times> effect list" where
  "appendToCommitLog w content =
    (if \<not> fs_access w LOGS_DIR \<and> \<not> fs_mkdir w LOGS_DIR then (Some IOError, [FsMkdir LOGS_DIR])
     else (if fs_appendFile w COMMITS_LOG_FILE then None else Some IOError,
           (if fs_access w LOGS_DIR then [] else [FsMkdir LOGS_DIR])
             @ [FsAppendFile COMMITS_LOG_FILE content]))"

definition syncToGoogleDocs ::
  "world \<Rightarrow> env \<Rightarrow> googleDocsSync \<Rightarrow> string \<Rightarrow> googleDocsSync \<times> effect list" where
  "syncToGoogleDocs w e s content =
    (if \<not> truthyS (GOOGLE_DOCS_ID e) \<or> \<not> truthyS (GOOGLE_APPLICATION_CREDENTIALS e)
       then (s, [])
     else (case appendText w e s content of (ok, s', effs) \<Rightarrow> (s', effs)))"

subsection \<open>handlePushEvent\<close>

text \<open>\<open>s.replace(pat, rep)\<close> with a string pattern: the first occurrence only.\<close>

fun replaceFirst :: "string \<Rightarrow> string \<Rightarrow> string \<Rightarrow> string" where
  "replaceFirst pat rep [] = (if pat = [] then rep else [])"
| "replaceFirst pat rep (c # cs) =
    (if prefix pat (c # cs) then rep @ drop (length pat) (c # cs)
     else c # replaceFirst pat rep cs)"

text \<open>\<open>payload.ref.replace('refs/heads/', '')\<close>: only a string has the method.\<close>

fun refBranch :: "json option \<Rightarrow> error + string" where
  "refBranch (Some (JString s)) = Inr (replaceFirst ''refs/heads/'' '''' s)"
| "refBranch v = Inl TypeError"

text \<open>\<open>!commits || commits.length === 0\<close>\<close>

fun noCommits :: "json option \<Rightarrow> bool" where
  "noCommits (Some (JArray vs)) = (vs = [])"
| "noCommits (Some (JObject ms)) = (map_of ms ''length'' = Some (JNumber ''0''))"
| "noCommits v = (\<not> truthy v)"

definition positiveNumber :: "string \<Rightarrow> bool" where
  "positiveNumber n =
    (n \<noteq> ''0'' \<and> n \<noteq> ''NaN'' \<and> (case n of [] \<Rightarrow> False | c # cs \<Rightarrow> c \<noteq> CHR ''-''))"

text \<open>
  \<open>x.length > 0\<close>. On an object the answer is that of its own \<open>length\<close> property
  converted to a number; the conversion of a non-empty string or array is left out
  of the model.
\<close>

fun lengthPositive :: "json option \<Rightarrow> error + bool" where
  "lengthPositive None = Inl TypeError"
| "lengthPositive (Some JNull) = Inl TypeError"
| "lengthPositive (Some (JArray vs)) = Inr (vs \<noteq> [])"
| "lengthPositive (Some (JString s)) = Inr (s \<noteq> [])"
| "lengthPositive (Some (JBool b)) = Inr False"
| "lengthPositive (Some (JNumber n)) = Inr False"
| "lengthPositive (Some (JObject ms)) =
    (case map_of ms ''length'' of
       None \<Rightarrow> Inr False
     | Some JNull \<Rightarrow> Inr False
     | Some (JBool b) \<Rightarrow> Inr b
     | Some (JNumber n) \<Rightarrow> Inr (positiveNumber n)
     | Some (JObject ls) \<Rightarrow> Inr False
     | Some (JString s) \<Rightarrow> if s = [] then Inr False else Inl Unmodelled
     | Some (JArray vs) \<Rightarrow> if vs = [] then Inr False else Inl Unmodelled)"

text \<open>The \<open>forEach\<close> loops: \<open>commitLog += `  + ${file}\n`\<close> and its two siblings.\<close>

fun fileLines :: "string \<Rightarrow> string \<Rightarrow> json list \<Rightarrow> string" where
  "fileLines mark commitLog [] = commitLog"
| "fileLines mark commitLog (f # fs) =
     fileLines mark (commitLog @ ''  '' @ mark @ '' '' @ jsString f @ ''\<newline>'') fs"

text \<open>One \<open>if (commit.added.length > 0) { ... }\<close> block; only an array has \<open>forEach\<close>.\<close>

definition filesBlock :: "string \<Rightarrow> string \<Rightarrow> json option \<Rightarrow> string \<Rightarrow> error + string" where
  "filesBlock title mark files commitLog =
    andThen (lengthPositive files) (\<lambda>pos.
      if \<not> pos then Inr commitLog
      else (case files of
              Some (JArray fs) \<Rightarrow> Inr (fileLines mark (commitLog @ title) fs @ ''\<newline>'')
            | _ \<Rightarrow> Inl TypeError))"

text \<open>The body of \<open>for (const commit of commits)\<close>.\<close>

definition commitBlock :: "json option \<Rightarrow> json \<Rightarrow> string \<Rightarrow> error + string" where
  "commitBlock prev commit commitLog =
    andThen (getProp (Some commit) ''committer'') (\<lambda>cm.
    andThen (getProp cm ''name'') (\<lambda>cname.
    andThen (getProp cm ''email'') (\<lambda>cemail.
    andThen (getProp (Some commit) ''id'') (\<lambda>cid.
    andThen (getProp (Some commit) ''message'') (\<lambda>cmsg.
    andThen (getProp (Some commit) ''added'') (\<lambda>added.
    andThen (filesBlock ''Added Files:\<newline>'' ''+'' added
       (commitLog @ replicate 80 CHR ''='' @ ''\<newline>''
          @ ''Committer: '' @ tmplJ cname @ '' ('' @ tmplJ cemail @ '')\<newline>''
          @ ''Commit ID: '' @ tmplJ cid @ ''\<newline>''
          @ ''Previous Commit: '' @ tmplJ prev @ ''\<newline>''
          @ ''Message: '' @ tmplJ cmsg @ ''\<newline>\<newline>'')) (\<lambda>commitLog.
    andThen (getProp (Some commit) ''modified'') (\<lambda>modified.
    andThen (filesBlock ''Modified Files:\<newline>'' ''~'' modified commitLog) (\<lambda>commitLog.
    andThen (getProp (Some commit) ''removed'') (\<lambda>removed.
    andThen (filesBlock ''Removed Files:\<newline>'' ''-'' removed commitLog) (\<lambda>commitLog.
    Inr (commitLog @ ''\<newline>''))))))))))))"

fun commitsLoop :: "json option \<Rightarrow> string \<Rightarrow> json list \<Rightarrow> error + string" where
  "commitsLoop prev commitLog [] = Inr commitLog"
| "commitsLoop prev commitLog (c # cs) =
     andThen (commitBlock prev c commitLog) (\<lambda>commitLog.
       commitsLoop prev commitLog cs)"

text \<open>
  The text \<open>commitLog\<close> of a push that has commits. A value of \<open>commits\<close> that is truthy
  and not an array ends in a \<open>TypeError\<close>, in the loop at the latest.
\<close>

definition buildCommitLog :: "world \<Rightarrow> json \<Rightarrow> error + string" where
  "buildCommitLog w payload =
    andThen (getProp (Some payload) ''repository'') (\<lambda>repository.
    andThen (getProp (Some payload) ''commits'') (\<lambda>commits.
    andThen (getProp (Some payload) ''pusher'') (\<lambda>pusher.
    andThen (getProp (Some payload) ''before'') (\<lambda>previousCommit.
    andThen (getProp pusher ''name'') (\<lambda>pname.
    andThen (getProp repository ''full_name'') (\<lambda>full_name.
    andThen (getProp (Some payload) ''ref'') (\<lambda>ref.
    andThen (refBranch ref) (\<lambda>branch.
    andThen (getProp pusher ''email'') (\<lambda>pemail.
      case commits of
        Some (JArray cs) \<Rightarrow>
          commitsLoop previousCommit
            (''Repository: '' @ tmplJ full_name @ ''\<newline>''
               @ ''Branch: '' @ branch @ ''\<newline>''
               @ ''Pushed by: '' @ tmplJ pname @ '' ('' @ tmplJ pemail @ '')\<newline>''
               @ ''Date: '' @ now w @ ''\<newline>\<newline>'') cs
      | _ \<Rightarrow> Inl TypeError)))))))))"

definition handlePushEvent ::
  "world \<Rightarrow> env \<Rightarrow> googleDocsSync \<Rightarrow> json \<Rightarrow> error option \<times> googleDocsSync \<times> effect list" where
  "handlePushEvent w e s payload =
    (case getProp (Some payload) ''commits'' of
       Inl err \<Rightarrow> (Some err, s, [])
     | Inr commits \<Rightarrow>
         if noCommits commits then (None, s, [])
         else (case buildCommitLog w payload of
                 Inl err \<Rightarrow> (Some err, s, [])
               | Inr commitLog \<Rightarrow>
                   (case appendToCommitLog w commitLog of
                      (Some err, effs) \<Rightarrow> (Some err, s, effs)
                    | (None, effs) \<Rightarrow>
                        (case syncToGoogleDocs w e s commitLog of
                           (s', effs') \<Rightarrow> (None, s', effs @ effs')))))"

subsection \<open>handleGithubWebhook\<close>

definition handleGithubWebhook ::
  "world \<Rightarrow> env \<Rightarrow> googleDocsSync \<Rightarrow> request \<Rightarrow> response \<times> googleDocsSync \<times> effect list" where
  "handleGithubWebhook w e s req =
    (let githubEvent = headers req ''x-github-event'';
         signature = headers req ''x-hub-signature-256''
     in if \<not> truthyS githubEvent
          then (\<lparr>res_status = 400, res_success = False,
                 res_message = ''Missing X-GitHub-Event header'',
                 res_data = DataAbsent, res_error = None\<rparr>, s, [])
        else (case (if truthyS (GITHUB_WEBHOOK_SECRET e)
                      then verifyGithubWebhook w e (body req) signature else Inr True) of
                Inl err \<Rightarrow>
                  (\<lparr>res_status = 500, res_success = False,
                    res_message = ''Error processing GitHub webhook'',
                    res_data = DataAbsent, res_error = Some err\<rparr>, s, [])
              | Inr False \<Rightarrow>
                  (\<lparr>res_status = 401, res_success = False,
                    res_message = ''Invalid webhook signature'',
                    res_data = DataAbsent, res_error = None\<rparr>, s, [])
              | Inr True \<Rightarrow>
                  (case (if githubEvent = Some ''push''
                           then handlePushEvent w e s (body req) else (None, s, [])) of
                     (Some err, s', effs) \<Rightarrow>
                       (\<lparr>res_status = 500, res_success = False,
                         res_message = ''Error processing GitHub webhook'',
                         res_data = DataAbsent, res_error = Some err\<rparr>, s', effs)
                   | (None, s', effs) \<Rightarrow>
                       (\<lparr>res_status = 200, res_success = True,
                         res_message = ''Successfully processed '' @ tmpl githubEvent @ '' event'',
                         res_data = DataAbsent, res_error = None\<rparr>, s', effs))))"

section \<open>Generic webhook controller (src/controllers/webhookController.js)\<close>








section \<open>Vocabulary of the statements and proofs\<close>

subsection \<open>Tokens of a value, and the values the parser model covers\<close>

definition app :: "token list \<Rightarrow> token list option \<Rightarrow> token list option" where
  "app ts r = map_option ((@) ts) r"

fun toks :: "json \<Rightarrow> token list" where
  "toks JNull = [TNull]"
| "toks (JBool b) = [TBool b]"
| "toks (JNumber n) = []"
| "toks (JString s) = [TStr s]"
| "toks (JArray vs) = TLBrack # join [TComma] (map toks vs) @ [TRBrack]"
| "toks (JObject ms) =
     TLBrace # join [TComma] (map (\<lambda>(k, v). TStr k # TColon # toks v) ms) @ [TRBrace]"

text \<open>No number inside, and in every object distinct keys, none of them an array index.\<close>

fun plain_json :: "json \<Rightarrow> bool" where
  "plain_json (JNumber n) = False"
| "plain_json (JArray vs) = list_all plain_json vs"
| "plain_json (JObject ms) =
     (distinct (map fst ms) \<and> list_all (\<lambda>(k, v). \<not> indexLike k \<and> plain_json v) ms)"
| "plain_json v = True"

definition cont :: "(frame list \<times> pstate) option \<Rightarrow> token list \<Rightarrow> json option" where
  "cont c ts = (case c of None \<Rightarrow> None | Some c' \<Rightarrow> run c' ts)"

subsection \<open>Reading a log entry back\<close>

text \<open>The keys of the object a text parses to, in order.\<close>

definition entryKeys :: "string \<Rightarrow> string list option" where
  "entryKeys txt = (case JSON_parse txt of Some (JObject ms) \<Rightarrow> Some (map fst ms) | _ \<Rightarrow> None)"

text \<open>The texts appended to one file, in order.\<close>

fun appendedTo :: "string \<Rightarrow> effect list \<Rightarrow> string list" where
  "appendedTo f [] = []"
| "appendedTo f (FsAppendFile g c # effs) =
     (if g = f then c # appendedTo f effs else appendedTo f effs)"
| "appendedTo f (e # effs) = appendedTo f effs"


subsection \<open>The plaintext layout of the specification (section 4.1)\<close>


definition changedFileLine :: "fileChange \<Rightarrow> string" where
  "changedFileLine f = statusSymbol (status f) @ '' '' @ tmpl (file_c f) @ ''\<newline>''"


subsection \<open>A push event with every field present, and the layout its log entry has\<close>










subsection \<open>Example inputs\<close>

text \<open>A world in which every external call succeeds, and a fixed answer for each.\<close>

definition world0 :: world where
  "world0 =
    \<lparr>now = ''2024-05-01T10:00:00.000Z'',
     fs_access = (\<lambda>p. True), fs_mkdir = (\<lambda>p. True), fs_appendFile = (\<lambda>p. True),
     hmac_sha256_hex = (\<lambda>k m. replicate 64 CHR ''0''),
     googleAuth = True, docs_get = (\<lambda>d. Some [1, 42]), docs_batchUpdate = True,
     chat_create = (\<lambda>r. Some (JObject [(''choices'',
        JArray [JObject [(''message'', JObject [(''content'', JString ''hello'')])]])])),
     git_diff_tree = (\<lambda>c. Some (''A'' @ [CHR 0x09] @ ''src/a.js'' @ [CHR 0x0A]
                                   @ ''M'' @ [CHR 0x09] @ ''b.js'' @ [CHR 0x0A])), git_show = (\<lambda>c. Some ''diff --git'')\<rparr>"

definition env0 :: env where
  "env0 = \<lparr>GITHUB_WEBHOOK_SECRET = None, GOOGLE_DOCS_ID = None,
            GOOGLE_APPLICATION_CREDENTIALS = None, OPENAI_API_KEY = None\<rparr>"


section \<open>JSON text: parsing what was stringified\<close>

lemma emit_app: "emit t (app ts r) = app (t # ts) r"
  by (cases r) (simp_all add: emit_def app_def)

lemma emit_as_app: "emit t r = app [t] r"
  by (cases r) (simp_all add: emit_def app_def)

lemma app_app: "app xs (app ys r) = app (xs @ ys) r"
  by (cases r) (simp_all add: app_def)

lemma app_Nil [simp]: "app [] r = r"
  by (cases r) (simp_all add: app_def)

lemma lex_ws: "list_all isWs w \<Longrightarrow> lexJ (w @ s) = lexJ s"
  by (induction w) simp_all

lemma lex_spaces: "lexJ (spaces n @ s) = lexJ s"
  by (rule lex_ws) (simp add: spaces_def isWs_def list_all_iff)

lemma hex_roundtrip:
  assumes "n < 32"
  shows "hex4 CHR ''0'' CHR ''0'' (hexDigit (n div 16)) (hexDigit (n mod 16)) = Some n"
proof -
  have hv: "\<And>m. m < 16 \<Longrightarrow> hexVal (hexDigit m) = Some m"
    by (auto simp: hexVal_def hexDigit_def Let_def)
  have h0: "hexVal CHR ''0'' = Some 0"
    by (simp add: hexVal_def)
  have "n div 16 < 16" "n mod 16 < 16" using assms by auto
  then show ?thesis
    by (simp add: hex4_def hv h0)
qed

lemma lexStr_escapeChar: "lexStr acc (escapeChar c @ rest) = lexStr (acc @ [c]) rest"
proof -
  consider (ctl) "(of_char c :: nat) < 32" | (plain) "\<not> (of_char c :: nat) < 32" by blast
  then show ?thesis
  proof cases
    case plain
    then show ?thesis
      by (auto simp: escapeChar_def unescape_def)
  next
    case ctl
    have "char_of (of_char c :: nat) = c" by simp
    with ctl show ?thesis
      using hex_roundtrip [OF ctl]
      by (auto simp: escapeChar_def unescape_def)
  qed
qed

lemma lexStr_body:
  "lexStr acc (concat (map escapeChar s) @ CHR 0x22 # rest) = emit (TStr (acc @ s)) (lexJ rest)"
proof (induction s arbitrary: acc)
  case Nil
  show ?case by simp
next
  case (Cons c s)
  have "lexStr acc (concat (map escapeChar (c # s)) @ CHR 0x22 # rest)
        = lexStr acc (escapeChar c @ (concat (map escapeChar s) @ CHR 0x22 # rest))" by simp
  also have "\<dots> = lexStr (acc @ [c]) (concat (map escapeChar s) @ CHR 0x22 # rest)"
    by (rule lexStr_escapeChar)
  also have "\<dots> = emit (TStr ((acc @ [c]) @ s)) (lexJ rest)" by (rule Cons.IH)
  finally show ?case by simp
qed

lemma lex_quote: "lexJ (quote s @ rest) = emit (TStr s) (lexJ rest)"
  using lexStr_body [of "[]" s rest] by (simp add: quote_def isWs_def)

lemma lex_punct:
  "lexJ (CHR ''{'' # s) = emit TLBrace (lexJ s)"
  "lexJ (CHR ''}'' # s) = emit TRBrace (lexJ s)"
  "lexJ (CHR ''['' # s) = emit TLBrack (lexJ s)"
  "lexJ (CHR '']'' # s) = emit TRBrack (lexJ s)"
  "lexJ (CHR '':'' # s) = emit TColon (lexJ s)"
  "lexJ (CHR '','' # s) = emit TComma (lexJ s)"
  "lexJ (CHR '' '' # s) = lexJ s"
  "lexJ (CHR 0x0A # s) = lexJ s"
  by (simp_all add: isWs_def)

lemma lex_literals:
  "lexJ (''null'' @ s) = emit TNull (lexJ s)"
  "lexJ (''true'' @ s) = emit (TBool True) (lexJ s)"
  "lexJ (''false'' @ s) = emit (TBool False) (lexJ s)"
  by (simp_all add: isWs_def)

declare lexJ.simps [simp del]

text \<open>Lexing a joined list of items, each of which lexes to its own tokens.\<close>

lemma lex_join:
  assumes item: "\<And>x rest. x \<in> set xs \<Longrightarrow> lexJ (f x @ rest) = app (t x) (lexJ rest)"
    and sep: "\<And>rest. lexJ (sep @ rest) = emit TComma (lexJ rest)"
  shows "lexJ (join sep (map f xs) @ rest) = app (join [TComma] (map t xs)) (lexJ rest)"
  using item
proof (induction xs rule: induct_list012)
  case 1
  show ?case by simp
next
  case (2 x)
  then show ?case by simp
next
  case (3 x y zs)
  have "lexJ (join sep (map f (x # y # zs)) @ rest)
        = lexJ (f x @ (sep @ (join sep (map f (y # zs)) @ rest)))" by simp
  also have "\<dots> = app (t x) (lexJ (sep @ (join sep (map f (y # zs)) @ rest)))"
    using 3(3) by simp
  also have "\<dots> = app (t x) (emit TComma (lexJ (join sep (map f (y # zs)) @ rest)))"
    by (simp only: sep)
  also have "\<dots> = app (t x) (emit TComma (app (join [TComma] (map t (y # zs))) (lexJ rest)))"
    using 3(2) 3(3) by simp
  finally show ?case
    by (simp add: emit_as_app app_app)
qed

lemma lex_stringify:
  "plain_json v \<Longrightarrow> lexJ (stringify g i v @ rest) = app (toks v) (lexJ rest)"
proof (induction v arbitrary: i rest)
  case (JNumber n)
  then show ?case by simp
next
  case JNull
  show ?case using lex_literals(1) [of rest] by (simp add: emit_as_app)
next
  case (JBool b)
  show ?case using lex_literals(2,3) [of rest] by (cases b) (simp_all add: emit_as_app)
next
  case (JString s)
  show ?case using lex_quote [of s rest] by (simp add: emit_as_app)
next
  case (JArray vs)
  show ?case
  proof (cases "vs = []")
    case True
    then show ?thesis by (simp add: lex_punct emit_as_app app_app)
  next
    case ne: False
    show ?thesis
    proof (cases "g = 0")
      case True
      have "lexJ (join '','' (map (stringify g i) vs) @ CHR '']'' # rest)
            = app (join [TComma] (map toks vs)) (lexJ (CHR '']'' # rest))"
        by (rule lex_join) (use JArray.prems in \<open>simp_all add: JArray.IH lex_punct list_all_iff\<close>)
      then show ?thesis using ne True
        by (simp add: lex_punct emit_as_app app_app)
    next
      case False
      have "lexJ (join ('',\<newline>'' @ spaces (i + g)) (map (stringify g (i + g)) vs)
                  @ CHR 0x0A # spaces i @ CHR '']'' # rest)
            = app (join [TComma] (map toks vs)) (lexJ (CHR 0x0A # spaces i @ CHR '']'' # rest))"
        by (rule lex_join)
          (use JArray.prems in \<open>simp_all add: JArray.IH lex_punct lex_spaces list_all_iff\<close>)
      then show ?thesis using ne False
        by (simp add: lex_punct lex_spaces emit_as_app app_app)
    qed
  qed
next
  case (JObject ms)
  have item: "\<And>j x rest. x \<in> set ms \<Longrightarrow>
      lexJ ((case x of (k, v) \<Rightarrow> quote k @ '':'' @ stringify g j v) @ rest)
        = app (case x of (k, v) \<Rightarrow> TStr k # TColon # toks v) (lexJ rest)"
    "\<And>j x rest. x \<in> set ms \<Longrightarrow>
      lexJ ((case x of (k, v) \<Rightarrow> quote k @ '': '' @ stringify g j v) @ rest)
        = app (case x of (k, v) \<Rightarrow> TStr k # TColon # toks v) (lexJ rest)"
  proof -
    fix j x rest assume x: "x \<in> set ms"
    obtain k v where kv: "x = (k, v)" by (cases x)
    have v: "v \<in> Basic_BNFs.snds x" using kv by simp
    have "plain_json v" using JObject.prems x kv by (auto simp: list_all_iff)
    then have ih: "\<And>r. lexJ (stringify g j v @ r) = app (toks v) (lexJ r)"
      using JObject.IH [OF x v] by simp
    show "lexJ ((case x of (k, v) \<Rightarrow> quote k @ '':'' @ stringify g j v) @ rest)
        = app (case x of (k, v) \<Rightarrow> TStr k # TColon # toks v) (lexJ rest)"
      using lex_quote [of k "'':'' @ stringify g j v @ rest"]
      by (simp add: kv ih lex_punct emit_as_app app_app)
    show "lexJ ((case x of (k, v) \<Rightarrow> quote k @ '': '' @ stringify g j v) @ rest)
        = app (case x of (k, v) \<Rightarrow> TStr k # TColon # toks v) (lexJ rest)"
      using lex_quote [of k "'': '' @ stringify g j v @ rest"]
      by (simp add: kv ih lex_punct emit_as_app app_app)
  qed
  show ?case
  proof (cases "ms = []")
    case True
    then show ?thesis by (simp add: lex_punct emit_as_app app_app)
  next
    case ne: False
    show ?thesis
    proof (cases "g = 0")
      case True
      have "lexJ (join '','' (map (\<lambda>(k, v). quote k @ '':'' @ stringify g i v) ms)
                  @ CHR ''}'' # rest)
            = app (join [TComma] (map (\<lambda>(k, v). TStr k # TColon # toks v) ms))
                (lexJ (CHR ''}'' # rest))"
        by (rule lex_join) (use item(1) in \<open>simp_all add: lex_punct\<close>)
      then show ?thesis using ne True
        by (simp add: lex_punct emit_as_app app_app)
    next
      case False
      have "lexJ (join ('',\<newline>'' @ spaces (i + g))
                   (map (\<lambda>(k, v). quote k @ '': '' @ stringify g (i + g) v) ms)
                  @ CHR 0x0A # spaces i @ CHR ''}'' # rest)
            = app (join [TComma] (map (\<lambda>(k, v). TStr k # TColon # toks v) ms))
                (lexJ (CHR 0x0A # spaces i @ CHR ''}'' # rest))"
        by (rule lex_join) (use item(2) in \<open>simp_all add: lex_punct lex_spaces\<close>)
      then show ?thesis using ne False
        by (simp add: lex_punct lex_spaces emit_as_app app_app)
    qed
  qed
qed

lemma run_Cons: "run c (t # ts) = cont (step c t) ts"
  by (simp add: cont_def)

declare run.simps(2) [simp del]

lemma cont_Some [simp]: "cont (Some c) ts = run c ts"
  by (simp add: cont_def)

lemma cont_None [simp]: "cont None ts = None"
  by (simp add: cont_def)

lemma setProp_fresh: "k \<notin> fst ` set ms \<Longrightarrow> setProp k v ms = ms @ [(k, v)]"
  by (induction ms) auto

lemma run_array_elems:
  assumes ih: "\<And>v st ps rest. v \<in> set vs \<Longrightarrow> acceptsValue ps \<Longrightarrow>
                 run (st, ps) (toks v @ rest) = cont (push_value st v) rest"
    and "vs \<noteq> []" and "acceptsValue ps"
  shows "run (FArr acc # st, ps) (join [TComma] (map toks vs) @ TRBrack # rest)
         = cont (push_value st (JArray (acc @ vs))) rest"
  using assms
proof (induction vs arbitrary: acc ps rule: induct_list012)
  case 1
  then show ?case by simp
next
  case (2 v)
  have "run (FArr acc # st, ps) (toks v @ TRBrack # rest)
        = cont (push_value (FArr acc # st) v) (TRBrack # rest)"
    using 2 by simp
  then show ?case by (simp add: run_Cons)
next
  case (3 v w ws)
  have "run (FArr acc # st, ps) (join [TComma] (map toks (v # w # ws)) @ TRBrack # rest)
        = run (FArr acc # st, ps) (toks v @ (TComma # join [TComma] (map toks (w # ws)) @ TRBrack # rest))"
    by simp
  also have "\<dots> = cont (push_value (FArr acc # st) v)
                      (TComma # join [TComma] (map toks (w # ws)) @ TRBrack # rest)"
    using 3(3) [of v] 3(5) by simp
  also have "\<dots> = run (FArr (acc @ [v]) # st, PValue)
                      (join [TComma] (map toks (w # ws)) @ TRBrack # rest)"
    by (simp add: run_Cons)
  also have "\<dots> = cont (push_value st (JArray ((acc @ [v]) @ (w # ws)))) rest"
    by (rule 3(2)) (use 3(3) in \<open>simp_all add: acceptsValue_def\<close>)
  finally show ?case by simp
qed

lemma run_object_members:
  assumes ih: "\<And>k v st ps rest. (k, v) \<in> set ms \<Longrightarrow> acceptsValue ps \<Longrightarrow>
                 run (st, ps) (toks v @ rest) = cont (push_value st v) rest"
    and "ms \<noteq> []" and "ps = PObjStart \<or> ps = PKey"
    and "distinct (map fst (acc @ ms))"
    and "\<And>k v. (k, v) \<in> set ms \<Longrightarrow> \<not> indexLike k"
  shows "run (FObj acc None # st, ps)
           (join [TComma] (map (\<lambda>(k, v). TStr k # TColon # toks v) ms) @ TRBrace # rest)
         = cont (push_value st (JObject (acc @ ms))) rest"
  using assms
proof (induction ms arbitrary: acc ps rule: induct_list012)
  case 1
  then show ?case by simp
next
  case (2 m)
  obtain k v where m: "m = (k, v)" by (cases m)
  have fresh: "k \<notin> fst ` set acc" and nidx: "\<not> indexLike k"
    using 2 m by auto
  have "run (FObj acc None # st, ps) (TStr k # TColon # toks v @ TRBrace # rest)
        = run (FObj acc (Some k) # st, PValue) (toks v @ TRBrace # rest)"
    using 2(3) by (auto simp: run_Cons)
  also have "\<dots> = cont (push_value (FObj acc (Some k) # st) v) (TRBrace # rest)"
    using 2(1) [of k v] m by (simp add: acceptsValue_def)
  also have "\<dots> = cont (push_value st (JObject (acc @ [(k, v)]))) rest"
    using fresh nidx by (simp add: setProp_fresh run_Cons)
  finally show ?case by (simp add: m)
next
  case (3 m n ms)
  obtain k v where m: "m = (k, v)" by (cases m)
  have fresh: "k \<notin> fst ` set acc" and nidx: "\<not> indexLike k"
    using 3(6) 3(7) [of k v] m by auto
  let ?tail = "join [TComma] (map (\<lambda>(k, v). TStr k # TColon # toks v) (n # ms)) @ TRBrace # rest"
  have "run (FObj acc None # st, ps)
          (join [TComma] (map (\<lambda>(k, v). TStr k # TColon # toks v) (m # n # ms)) @ TRBrace # rest)
        = run (FObj acc None # st, ps) (TStr k # TColon # toks v @ (TComma # ?tail))"
    by (simp add: m)
  also have "\<dots> = run (FObj acc (Some k) # st, PValue) (toks v @ (TComma # ?tail))"
    using 3(5) by (auto simp: run_Cons)
  also have "\<dots> = cont (push_value (FObj acc (Some k) # st) v) (TComma # ?tail)"
    using 3(3) [of k v] m by (simp add: acceptsValue_def)
  also have "\<dots> = run (FObj (acc @ [(k, v)]) None # st, PKey) ?tail"
    using fresh nidx by (simp add: setProp_fresh run_Cons)
  also have "\<dots> = cont (push_value st (JObject ((acc @ [(k, v)]) @ (n # ms)))) rest"
  proof (rule 3(2))
    show "distinct (map fst ((acc @ [(k, v)]) @ n # ms))" using 3(6) m by simp
    show "run (st', ps') (toks v' @ rest') = cont (push_value st' v') rest'"
      if "(k', v') \<in> set (n # ms)" "acceptsValue ps'" for k' v' st' ps' rest'
      by (rule 3(3) [where k = k']) (use that in simp_all)
    show "\<not> indexLike k'" if "(k', v') \<in> set (n # ms)" for k' v'
      by (rule 3(7) [where v = v']) (use that in simp_all)
  qed simp_all
  finally show ?case by (simp add: m)
qed

lemma run_toks:
  "plain_json v \<Longrightarrow> acceptsValue ps \<Longrightarrow>
     run (st, ps) (toks v @ rest) = cont (push_value st v) rest"
proof (induction v arbitrary: st ps rest)
  case (JNumber n)
  then show ?case by simp
next
  case JNull
  then show ?case by (simp add: run_Cons)
next
  case (JBool b)
  then show ?case by (simp add: run_Cons)
next
  case (JString s)
  then show ?case by (auto simp: run_Cons acceptsValue_def)
next
  case (JArray vs)
  show ?case
  proof (cases "vs = []")
    case True
    then show ?thesis using JArray.prems by (simp add: run_Cons)
  next
    case False
    have "run (FArr [] # st, PArrStart) (join [TComma] (map toks vs) @ TRBrack # rest)
          = cont (push_value st (JArray ([] @ vs))) rest"
    proof (rule run_array_elems)
      fix v st ps rest assume "v \<in> set vs" "acceptsValue ps"
      then show "run (st, ps) (toks v @ rest) = cont (push_value st v) rest"
        using JArray.IH [of v ps st rest] JArray.prems(1) by (simp add: list_all_iff)
    qed (use False in \<open>simp_all add: acceptsValue_def\<close>)
    then show ?thesis using JArray.prems by (simp add: run_Cons)
  qed
next
  case (JObject ms)
  show ?case
  proof (cases "ms = []")
    case True
    then show ?thesis using JObject.prems by (simp add: run_Cons)
  next
    case False
    have "run (FObj [] None # st, PObjStart)
            (join [TComma] (map (\<lambda>(k, v). TStr k # TColon # toks v) ms) @ TRBrace # rest)
          = cont (push_value st (JObject ([] @ ms))) rest"
    proof (rule run_object_members)
      fix k v st ps rest assume kv: "(k, v) \<in> set ms" and "acceptsValue ps"
      then show "run (st, ps) (toks v @ rest) = cont (push_value st v) rest"
        using JObject.IH [of "(k, v)" v ps st rest] JObject.prems(1)
        by (auto simp: list_all_iff)
    next
      fix k v assume "(k, v) \<in> set ms"
      then show "\<not> indexLike k" using JObject.prems(1) by (auto simp: list_all_iff)
    qed (use False JObject.prems in \<open>simp_all\<close>)
    then show ?thesis using JObject.prems by (simp add: run_Cons)
  qed
qed

lemma JSON_parse_stringify: "plain_json v \<Longrightarrow> JSON_parse (JSON_stringify n v) = Some v"
proof -
  assume wf: "plain_json v"
  have "lexJ (stringify (min 10 n) 0 v @ []) = app (toks v) (lexJ [])"
    by (rule lex_stringify [OF wf])
  then have l: "lexJ (JSON_stringify n v) = Some (toks v)"
    by (simp add: JSON_stringify_def app_def lexJ.simps)
  have "run ([], PValue) (toks v @ []) = cont (push_value [] v) []"
    by (rule run_toks [OF wf]) (simp add: acceptsValue_def)
  then show ?thesis by (simp add: JSON_parse_def l)
qed

lemma JSON_parse_stringify_ws:
  assumes "plain_json v" and "list_all isWs ws"
  shows "JSON_parse (JSON_stringify n v @ ws) = Some v"
proof -
  have "lexJ ws = lexJ (ws @ [])" by simp
  also have "\<dots> = Some []" using lex_ws [OF assms(2), of "[]"] by (simp add: lexJ.simps)
  finally have e: "lexJ ws = Some []" .
  have "lexJ (stringify (min 10 n) 0 v @ ws) = app (toks v) (lexJ ws)"
    by (rule lex_stringify [OF assms(1)])
  then have l: "lexJ (JSON_stringify n v @ ws) = Some (toks v)"
    by (simp add: JSON_stringify_def app_def e)
  have "run ([], PValue) (toks v @ []) = cont (push_value [] v) []"
    by (rule run_toks [OF assms(1)]) (simp add: acceptsValue_def)
  then show ?thesis by (simp add: JSON_parse_def l)
qed

section \<open>The GitHub webhook handler\<close>

text \<open>
  Claim C6. A request to the GitHub webhook handler that has no \<open>X-GitHub-Event\<close> header
  is answered with status 400, and the handler has no effect at all before it returns:
  no directory is created and nothing is appended to a file.
\<close>

theorem missing_event_header_400:
  "headers req ''x-github-event'' = None \<Longrightarrow>
     res_status (fst (handleGithubWebhook w e s req)) = 400
     \<and> snd (snd (handleGithubWebhook w e s req)) = []
     \<and> filter isFsWrite (snd (snd (handleGithubWebhook w e s req))) = []"
  by (simp add: handleGithubWebhook_def)

theorem missing_event_header_400_witness:
  "headers \<lparr>headers = Map.empty, body = JObject []\<rparr> ''x-github-event'' = None
   \<and> res_status (fst (handleGithubWebhook world0 env0 newGoogleDocsSync
         \<lparr>headers = Map.empty, body = JObject []\<rparr>)) = 400
   \<and> filter isFsWrite (snd (snd (handleGithubWebhook world0 env0 newGoogleDocsSync
         \<lparr>headers = Map.empty, body = JObject []\<rparr>))) = []"
  using missing_event_header_400
    [of "\<lparr>headers = Map.empty, body = JObject []\<rparr>" world0 env0 newGoogleDocsSync]
  by simp

section \<open>The Doc Sync client\<close>

lemma reachable_initialized:
  "reachable w e s \<Longrightarrow> initialized s \<Longrightarrow> truthyS (GOOGLE_APPLICATION_CREDENTIALS e)"
proof (induction rule: reachable.induct)
  case start
  then show ?case by (simp add: newGoogleDocsSync_def)
next
  case (call s content documentId ok s' effs)
  then show ?case
    by (auto simp: appendToDocument_def appendWithClient_def initialize_def Let_def
             split: if_splits option.splits prod.splits bool.splits)
qed

lemma appendWithClient_no_id:
  "\<not> truthyS (GOOGLE_DOCS_ID e) \<Longrightarrow> appendWithClient w e s content None = (False, s, [])"
  by (cases "GOOGLE_DOCS_ID e") (simp_all add: appendWithClient_def)

text \<open>
  Claim C9. Whatever the text, the append operation of the Doc Sync client returns false
  (it has no throwing path) when \<open>GOOGLE_DOCS_ID\<close> is unset, and issues neither the
  fetch nor the update request; and it returns false, without any request, when the
  credentials path is unset.
\<close>

theorem appendText_false_when_unconfigured:
  "(\<not> truthyS (GOOGLE_DOCS_ID e) \<longrightarrow>
      fst (appendText w e s content) = False
      \<and> filter isDocsRequest (snd (snd (appendText w e s content))) = [])
   \<and> (reachable w e s \<and> \<not> truthyS (GOOGLE_APPLICATION_CREDENTIALS e) \<longrightarrow>
      fst (appendText w e s content) = False
      \<and> snd (snd (appendText w e s content)) = [])"
proof (intro conjI impI)
  assume noid: "\<not> truthyS (GOOGLE_DOCS_ID e)"
  have r: "fst (appendText w e s content) = False \<and> snd (snd (appendText w e s content)) = []"
    using appendWithClient_no_id [OF noid]
    by (simp add: appendText_def appendToDocument_def initialize_def split: prod.splits bool.splits)
  from r show "fst (appendText w e s content) = False" by simp
  from r show "filter isDocsRequest (snd (snd (appendText w e s content))) = []" by simp
next
  assume a: "reachable w e s \<and> \<not> truthyS (GOOGLE_APPLICATION_CREDENTIALS e)"
  then have ni: "\<not> initialized s" using reachable_initialized by blast
  from a ni show "fst (appendText w e s content) = False"
    by (simp add: appendText_def appendToDocument_def initialize_def)
  from a ni show "snd (snd (appendText w e s content)) = []"
    by (simp add: appendText_def appendToDocument_def initialize_def)
qed

theorem appendText_false_when_unconfigured_witness:
  "\<not> truthyS (GOOGLE_DOCS_ID (env0\<lparr>GOOGLE_APPLICATION_CREDENTIALS := Some ''creds.json''\<rparr>))
   \<and> fst (appendText world0 (env0\<lparr>GOOGLE_APPLICATION_CREDENTIALS := Some ''creds.json''\<rparr>)
            newGoogleDocsSync ''text'') = False
   \<and> reachable world0 (env0\<lparr>GOOGLE_DOCS_ID := Some ''doc1''\<rparr>) newGoogleDocsSync
   \<and> \<not> truthyS (GOOGLE_APPLICATION_CREDENTIALS (env0\<lparr>GOOGLE_DOCS_ID := Some ''doc1''\<rparr>))
   \<and> snd (snd (appendText world0 (env0\<lparr>GOOGLE_DOCS_ID := Some ''doc1''\<rparr>)
                  newGoogleDocsSync ''text'')) = []"
  using appendText_false_when_unconfigured
          [of "env0\<lparr>GOOGLE_APPLICATION_CREDENTIALS := Some ''creds.json''\<rparr>" world0
              newGoogleDocsSync "''text''"]
        appendText_false_when_unconfigured
          [of "env0\<lparr>GOOGLE_DOCS_ID := Some ''doc1''\<rparr>" world0 newGoogleDocsSync "''text''"]
        reachable.start [of world0 "env0\<lparr>GOOGLE_DOCS_ID := Some ''doc1''\<rparr>"]
  by (simp add: env0_def)

section \<open>The generic webhook handler\<close>








section \<open>Pushes without commits\<close>

lemma handlePushEvent_no_commits:
  "getProp (Some payload) ''commits'' = Inr None
     \<or> getProp (Some payload) ''commits'' = Inr (Some (JArray []))
   \<Longrightarrow> handlePushEvent w e s payload = (None, s, [])"
  by (auto simp: handlePushEvent_def)

text \<open>
  Claim C7, as stated, fails: with a secret configured and no signature header, a push
  event with an empty list of commits is answered with 401.
\<close>

theorem empty_push_unsigned_counterexample:
  "res_status (fst (handleGithubWebhook world0 (env0\<lparr>GITHUB_WEBHOOK_SECRET := Some ''s3cret''\<rparr>)
      newGoogleDocsSync
      \<lparr>headers = [''x-github-event'' \<mapsto> ''push''],
       body = JObject [(''commits'', JArray [])]\<rparr>)) = 401"
  by (simp add: handleGithubWebhook_def verifyGithubWebhook_def env0_def Let_def)

text \<open>
  Claim C7, amended. For a push event whose \<open>commits\<close> property is absent or an empty
  list, the handler has no effect at all (no directory is created, nothing is appended
  to a file); the response status is 200 whenever the request passes the signature
  check, that is when no secret is configured or the verifier returns true.
\<close>

theorem empty_push_is_noop:
  assumes "headers req ''x-github-event'' = Some ''push''"
    and "getProp (Some (body req)) ''commits'' = Inr None
         \<or> getProp (Some (body req)) ''commits'' = Inr (Some (JArray []))"
  shows "snd (snd (handleGithubWebhook w e s req)) = []
         \<and> filter isFsWrite (snd (snd (handleGithubWebhook w e s req))) = []
         \<and> (\<not> truthyS (GITHUB_WEBHOOK_SECRET e)
              \<or> verifyGithubWebhook w e (body req) (headers req ''x-hub-signature-256'') = Inr True
            \<longrightarrow> res_status (fst (handleGithubWebhook w e s req)) = 200)"
proof -
  have np: "handlePushEvent w e s (body req) = (None, s, [])"
    by (rule handlePushEvent_no_commits [OF assms(2)])
  have eff: "snd (snd (handleGithubWebhook w e s req)) = []"
    using assms(1) np
    by (simp add: handleGithubWebhook_def Let_def split: sum.splits bool.splits)
  have st: "res_status (fst (handleGithubWebhook w e s req)) = 200"
    if "\<not> truthyS (GITHUB_WEBHOOK_SECRET e)
        \<or> verifyGithubWebhook w e (body req) (headers req ''x-hub-signature-256'') = Inr True"
    using that assms(1) np
    by (auto simp: handleGithubWebhook_def Let_def)
  from eff st show ?thesis by simp
qed

theorem empty_push_is_noop_witness:
  "headers \<lparr>headers = [''x-github-event'' \<mapsto> ''push''], body = JObject [(''commits'', JArray [])]\<rparr>
      ''x-github-event'' = Some ''push''
   \<and> getProp (Some (JObject [(''commits'', JArray [])])) ''commits'' = Inr (Some (JArray []))
   \<and> \<not> truthyS (GITHUB_WEBHOOK_SECRET env0)
   \<and> filter isFsWrite (snd (snd (handleGithubWebhook world0 env0 newGoogleDocsSync
        \<lparr>headers = [''x-github-event'' \<mapsto> ''push''],
         body = JObject [(''commits'', JArray [])]\<rparr>))) = []
   \<and> res_status (fst (handleGithubWebhook world0 env0 newGoogleDocsSync
        \<lparr>headers = [''x-github-event'' \<mapsto> ''push''],
         body = JObject [(''commits'', JArray [])]\<rparr>)) = 200"
  using empty_push_is_noop
    [of "\<lparr>headers = [''x-github-event'' \<mapsto> ''push''], body = JObject [(''commits'', JArray [])]\<rparr>"
        world0 env0 newGoogleDocsSync]
  by (simp add: env0_def)

section \<open>The signature verifier\<close>

lemma computeDigest_length: "7 \<le> length (computeDigest w secret payload)"
  by (simp add: computeDigest_def)

text \<open>
  Claim C1 does not hold of the code. With a secret configured, a signature header whose
  length differs from that of the digest string is passed to the constant-time
  comparator, which throws; the handler then answers 500 instead of 401. Nothing
  returns false before the comparator is called.
\<close>

theorem verifyGithubWebhook_throws_on_length_mismatch:
  assumes "GITHUB_WEBHOOK_SECRET e = Some secret" and "secret \<noteq> []" and "sig \<noteq> []"
    and "length sig \<noteq> length (computeDigest w secret payload)"
  shows "verifyGithubWebhook w e payload (Some sig) = Inl RangeError
         \<and> (headers req ''x-github-event'' = Some ev \<and> ev \<noteq> []
              \<and> headers req ''x-hub-signature-256'' = Some sig \<and> body req = payload
            \<longrightarrow> res_status (fst (handleGithubWebhook w e s req)) = 500)"
proof -
  have v: "verifyGithubWebhook w e payload (Some sig) = Inl RangeError"
    using assms by (simp add: verifyGithubWebhook_def timingSafeEqual_def)
  then show ?thesis
    using assms(1,2) by (auto simp: handleGithubWebhook_def Let_def)
qed

theorem verifyGithubWebhook_throws_on_length_mismatch_witness:
  "length ''x'' \<noteq> length (computeDigest world0 ''s3cret'' (JObject []))
   \<and> verifyGithubWebhook world0 (env0\<lparr>GITHUB_WEBHOOK_SECRET := Some ''s3cret''\<rparr>)
        (JObject []) (Some ''x'') = Inl RangeError
   \<and> res_status (fst (handleGithubWebhook world0 (env0\<lparr>GITHUB_WEBHOOK_SECRET := Some ''s3cret''\<rparr>)
        newGoogleDocsSync
        \<lparr>headers = [''x-github-event'' \<mapsto> ''push'', ''x-hub-signature-256'' \<mapsto> ''x''],
         body = JObject []\<rparr>)) = 500"
  using verifyGithubWebhook_throws_on_length_mismatch
    [of "env0\<lparr>GITHUB_WEBHOOK_SECRET := Some ''s3cret''\<rparr>" "''s3cret''" "''x''" world0 "JObject []"
        "\<lparr>headers = [''x-github-event'' \<mapsto> ''push'', ''x-hub-signature-256'' \<mapsto> ''x''],
         body = JObject []\<rparr>" "''push''" newGoogleDocsSync]
        computeDigest_length [of world0 "''s3cret''" "JObject []"]
  by (simp add: env0_def)

section \<open>The commit formatter\<close>

lemma changedFilesLoop_append:
  "changedFilesLoop content fs = content @ concat (map changedFileLine fs)"
  by (induction fs arbitrary: content) (simp_all add: changedFileLine_def)

text \<open>
  Claim C5. The plaintext formatter writes one line per file-change entry, in input order,
  each beginning with the status symbol: \<open>+\<close> for status \<open>A\<close>, \<open>-\<close> for status \<open>D\<close>, and
  \<open>~\<close> for every other status value, known or not. The mapping is total: no status
  value makes the formatter fail.
\<close>

theorem statusSymbol_total_mapping:
  "statusSymbol ''A'' = ''+'' \<and> statusSymbol ''D'' = ''-''
   \<and> (st \<noteq> ''A'' \<and> st \<noteq> ''D'' \<longrightarrow> statusSymbol st = ''~'')
   \<and> changedFilesLoop content fs =
       content @ concat (map (\<lambda>f. (if status f = ''A'' then ''+''
                                     else if status f = ''D'' then ''-'' else ''~'')
                                    @ '' '' @ tmpl (file_c f) @ ''\<newline>'') fs)"
  by (simp add: changedFilesLoop_append changedFileLine_def [abs_def] statusSymbol_def)

theorem statusSymbol_total_mapping_witness:
  "statusSymbol ''M'' = ''~'' \<and> statusSymbol ''R100'' = ''~''
   \<and> changedFilesLoop ''x''
        [\<lparr>status = ''A'', file_c = Some ''a.js''\<rparr>, \<lparr>status = ''M'', file_c = Some ''b.js''\<rparr>,
         \<lparr>status = ''D'', file_c = Some ''c.js''\<rparr>]
       = ''x+ a.js\<newline>~ b.js\<newline>- c.js\<newline>''"
  using statusSymbol_total_mapping [of "''M''" "''x''"
          "[\<lparr>status = ''A'', file_c = Some ''a.js''\<rparr>, \<lparr>status = ''M'', file_c = Some ''b.js''\<rparr>,
            \<lparr>status = ''D'', file_c = Some ''c.js''\<rparr>]"]
        statusSymbol_total_mapping [of "''R100''" "[]" "[]"]
  by simp

section \<open>What the verifier signs\<close>





section \<open>The JSON log\<close>

lemma not_indexLike_keys [simp]:
  "\<not> indexLike ''id''" "\<not> indexLike ''previousCommit''" "\<not> indexLike ''committer''"
  "\<not> indexLike ''message''" "\<not> indexLike ''timestamp''" "\<not> indexLike ''filesChanged''"
  "\<not> indexLike ''diff''" "\<not> indexLike ''name''" "\<not> indexLike ''email''"
  "\<not> indexLike ''status''" "\<not> indexLike ''file''"
  by (simp_all add: indexLike_def isDigit_def)

lemma plain_committer_json [simp]: "plain_json (committer_json c)"
  by (cases "name c"; cases "email c") (simp_all add: committer_json_def)

lemma plain_fileChange_json [simp]: "plain_json (fileChange_json f)"
  by (cases "file_c f") (simp_all add: fileChange_json_def)

lemma plain_commitInfo_json: "plain_json (commitInfo_json c)"
  by (cases "previousCommit c") (simp_all add: commitInfo_json_def list_all_iff)

lemma logEntry_parse: "JSON_parse (logEntry c) = Some (commitInfo_json c)"
  by (simp add: logEntry_def JSON_parse_stringify plain_commitInfo_json)

lemma optProp_inj: "optProp k x = optProp k y \<Longrightarrow> x = y"
  by (cases x; cases y) simp_all

lemma committer_json_inj: "committer_json a = committer_json b \<Longrightarrow> a = b"
  by (cases "name a"; cases "name b"; cases "email a"; cases "email b")
     (auto simp: committer_json_def)

lemma fileChange_json_inj: "fileChange_json a = fileChange_json b \<Longrightarrow> a = b"
  by (cases "file_c a"; cases "file_c b") (auto simp: fileChange_json_def)

lemma commitInfo_json_inj: "commitInfo_json a = commitInfo_json b \<Longrightarrow> a = b"
proof -
  assume eq: "commitInfo_json a = commitInfo_json b"
  have files: "map fileChange_json (filesChanged a) = map fileChange_json (filesChanged b)
                 \<Longrightarrow> filesChanged a = filesChanged b"
    using fileChange_json_inj by (metis inj_onI inj_on_map_eq_map)
  from eq files show ?thesis
    by (cases "previousCommit a"; cases "previousCommit b")
       (auto simp: commitInfo_json_def dest: committer_json_inj)
qed

text \<open>
  Claim C4, as stated, fails: run with the commit id as its only argument, the script
  writes a record whose \<open>previousCommit\<close> is \<open>undefined\<close>, and the serialized entry has
  no \<open>previousCommit\<close> key.
\<close>

theorem missing_argument_key_counterexample:
  "appendedTo PROCESSED_LOG_FILE (snd (processCommit world0 env0 [''abc123'']))
     = [logEntry (buildCommitInfo world0 ''abc123'' [''abc123'']) @ ''\<newline>\<newline>'']
   \<and> entryKeys (logEntry (buildCommitInfo world0 ''abc123'' [''abc123'']))
     = Some [''id'', ''committer'', ''message'', ''timestamp'', ''filesChanged'', ''diff'']
   \<and> entryKeys (logEntry (buildCommitInfo world0 ''abc123'' [''abc123'']))
     \<noteq> Some [''id'', ''previousCommit'', ''committer'', ''message'', ''timestamp'',
              ''filesChanged'', ''diff'']"
  by (simp add: entryKeys_def logEntry_parse commitInfo_json_def buildCommitInfo_def
        processCommit_def logProcessedCommit_def syncCommitToGoogleDocs_def world0_def env0_def)

text \<open>
  Claim C4, amended. For every commit record written to the JSON log, parsing the
  serialized entry back (with or without its separator) yields the object that was
  written, with every field value identical, the diff text verbatim; two different
  records never give the same object.
  The keys appear in the order id, previousCommit, committer, message, timestamp,
  filesChanged, diff, except that previousCommit is left out when its value is
  undefined (as are name and email inside committer, and file inside an entry of
  filesChanged). Each record is appended followed by two newlines.
\<close>

theorem logEntry_roundtrip:
  "JSON_parse (logEntry c) = Some (commitInfo_json c)
   \<and> JSON_parse (logEntry c @ ''\<newline>\<newline>'') = Some (commitInfo_json c)
   \<and> map_of (case commitInfo_json c of JObject ms \<Rightarrow> ms | _ \<Rightarrow> []) ''diff'' = Some (JString (diff c))
   \<and> (commitInfo_json c = commitInfo_json c' \<longrightarrow> c = c')
   \<and> entryKeys (logEntry c)
       = Some (''id'' # (case previousCommit c of None \<Rightarrow> [] | Some p \<Rightarrow> [''previousCommit''])
                @ [''committer'', ''message'', ''timestamp'', ''filesChanged'', ''diff''])
   \<and> appendedTo PROCESSED_LOG_FILE (snd (logProcessedCommit w c))
       = (if fs_mkdir w LOGS_DIR then [logEntry c @ ''\<newline>\<newline>''] else [])"
proof (intro conjI)
  show "JSON_parse (logEntry c) = Some (commitInfo_json c)" by (rule logEntry_parse)
  show "JSON_parse (logEntry c @ ''\<newline>\<newline>'') = Some (commitInfo_json c)"
    by (simp add: logEntry_def JSON_parse_stringify_ws plain_commitInfo_json isWs_def)
  show "map_of (case commitInfo_json c of JObject ms \<Rightarrow> ms | _ \<Rightarrow> []) ''diff''
          = Some (JString (diff c))"
    by (cases "previousCommit c") (simp_all add: commitInfo_json_def)
  show "commitInfo_json c = commitInfo_json c' \<longrightarrow> c = c'"
    using commitInfo_json_inj by blast
  show "entryKeys (logEntry c)
       = Some (''id'' # (case previousCommit c of None \<Rightarrow> [] | Some p \<Rightarrow> [''previousCommit''])
                @ [''committer'', ''message'', ''timestamp'', ''filesChanged'', ''diff''])"
    by (cases "previousCommit c") (simp_all add: entryKeys_def logEntry_parse commitInfo_json_def)
  show "appendedTo PROCESSED_LOG_FILE (snd (logProcessedCommit w c))
       = (if fs_mkdir w LOGS_DIR then [logEntry c @ ''\<newline>\<newline>''] else [])"
    by (simp add: logProcessedCommit_def)
qed

theorem logEntry_roundtrip_witness:
  "JSON_parse (logEntry (buildCommitInfo world0 ''abc123'' [''abc123'', ''def456'', ''Ann'', ''ann@example.com'', ''fix'', ''bug'']))
     = Some (JObject [(''id'', JString ''abc123''), (''previousCommit'', JString ''def456''),
                      (''committer'', JObject [(''name'', JString ''Ann''),
                                               (''email'', JString ''ann@example.com'')]),
                      (''message'', JString ''fix bug''),
                      (''timestamp'', JString ''2024-05-01T10:00:00.000Z''),
                      (''filesChanged'',
                        JArray [JObject [(''status'', JString ''A''), (''file'', JString ''src/a.js'')],
                                JObject [(''status'', JString ''M''), (''file'', JString ''b.js'')]]),
                      (''diff'', JString ''diff --git'')])"
  using logEntry_roundtrip
    [of "buildCommitInfo world0 ''abc123'' [''abc123'', ''def456'', ''Ann'', ''ann@example.com'', ''fix'', ''bug'']"
        "buildCommitInfo world0 ''abc123'' [''abc123'', ''def456'', ''Ann'', ''ann@example.com'', ''fix'', ''bug'']" world0]
  by (simp add: buildCommitInfo_def commitInfo_json_def committer_json_def fileChange_json_def
        world0_def parseFilesChanged_def pieces_def parseLine_def eval_nat_numeral)

section \<open>The plaintext log\<close>



















end
